theory Spec2Isabelle
  imports Complex_Main
begin

section \<open>Python strings and console input\<close>

text \<open>
  Both programs read lines from the console and work on Python \<open>str\<close> values. A string
  is modelled as a \<open>string\<close> (a list of 8-bit characters); the builtins \<open>str.isalpha\<close>,
  \<open>str.lower\<close> and \<open>str.strip\<close> are modelled on the ASCII range, where a letter is
  \<open>A\<close>..\<open>Z\<close> or \<open>a\<close>..\<open>z\<close> and the whitespace characters are the codes 9..13,
  28..31 and 32.
\<close>

definition is_upper_char :: "char \<Rightarrow> bool" where
  "is_upper_char c = (65 \<le> (of_char c :: nat) \<and> (of_char c :: nat) \<le> 90)"

definition is_lower_char :: "char \<Rightarrow> bool" where
  "is_lower_char c = (97 \<le> (of_char c :: nat) \<and> (of_char c :: nat) \<le> 122)"

definition is_alpha_char :: "char \<Rightarrow> bool" where
  "is_alpha_char c = (is_upper_char c \<or> is_lower_char c)"

definition is_digit_char :: "char \<Rightarrow> bool" where
  "is_digit_char c = (48 \<le> (of_char c :: nat) \<and> (of_char c :: nat) \<le> 57)"

definition is_space_char :: "char \<Rightarrow> bool" where
  "is_space_char c =
     ((9 \<le> (of_char c :: nat) \<and> (of_char c :: nat) \<le> 13) \<or>
      (28 \<le> (of_char c :: nat) \<and> (of_char c :: nat) \<le> 32))"

definition lower_char :: "char \<Rightarrow> char" where
  "lower_char c = (if is_upper_char c then char_of ((of_char c :: nat) + 32) else c)"

text \<open>\<open>s.isalpha()\<close>: at least one character, and every character a letter.\<close>

definition isalpha :: "string \<Rightarrow> bool" where
  "isalpha s = (s \<noteq> [] \<and> list_all is_alpha_char s)"

text \<open>\<open>s.lower()\<close>.\<close>

definition lower :: "string \<Rightarrow> string" where
  "lower s = map lower_char s"

text \<open>\<open>s.strip()\<close>: leading and trailing whitespace removed.\<close>

definition strip :: "string \<Rightarrow> string" where
  "strip s = rev (dropWhile is_space_char (rev (dropWhile is_space_char s)))"

text \<open>
  An exception of the source is a value. \<open>input()\<close> raises \<open>EOFError\<close> when no line is
  left, \<open>int()\<close> raises \<open>ValueError\<close> on text that is not an integer literal,
  formatting \<open>None\<close> with \<open>:.2f\<close> raises \<open>TypeError\<close>.
\<close>

datatype exn = EOFError | ValueError | TypeError

section \<open>lecture\_2: the profile program\<close>

text \<open>
  \<^verbatim>\<open>
  def generate_profile(age: int) -> str:
      if 0 <= age <= 12:
          return "Child"
      elif 13 <= age <= 19:
          return "Teenager"
      elif age >= 20:
          return "Adult"
      else:
          return "Unknown"
  \<close>
\<close>

definition generate_profile :: "int \<Rightarrow> string" where
  "generate_profile age =
     (if 0 \<le> age \<and> age \<le> 12 then ''Child''
      else if 13 \<le> age \<and> age \<le> 19 then ''Teenager''
      else if age \<ge> 20 then ''Adult''
      else ''Unknown'')"

text \<open>
  \<open>int(s)\<close> on a string: surrounding whitespace is dropped, then an optional sign and a
  non-empty run of decimal digits in which single underscores may separate digits.
  \<open>None\<close> stands for the \<open>ValueError\<close> of the builtin.
\<close>

definition digit_val :: "char \<Rightarrow> nat" where
  "digit_val c = (of_char c :: nat) - 48"

text \<open>
  \<open>digits acc prev s\<close> reads a digit run; \<open>prev\<close> tells that the previous character was
  a digit (so that an underscore may follow it), \<open>acc\<close> is the value read so far.
\<close>

fun digits :: "nat \<Rightarrow> bool \<Rightarrow> string \<Rightarrow> nat option" where
  "digits acc prev [] = (if prev then Some acc else None)"
| "digits acc prev (c # cs) =
     (if is_digit_char c then digits (10 * acc + digit_val c) True cs
      else if c = CHR ''_'' \<and> prev \<and> cs \<noteq> [] then digits acc False cs
      else None)"

definition py_int :: "string \<Rightarrow> int option" where
  "py_int s =
     (case strip s of
        [] \<Rightarrow> None
      | c # cs \<Rightarrow>
          if c = CHR ''-'' then map_option (\<lambda>n. - int n) (digits 0 False cs)
          else if c = CHR ''+'' then map_option int (digits 0 False cs)
          else map_option int (digits 0 False (c # cs)))"

text \<open>
  The profile dictionary of \<open>main\<close>. The field \<open>name\<close> is called \<open>profile_name\<close> here,
  since the students of lecture\_3 have a field \<open>name\<close> as well.
\<close>

record user_profile =
  profile_name :: string
  birth_year :: int
  age :: int
  life_stage :: string
  hobbies :: "string list"

text \<open>
  The hobby loop: every line is appended until a line whose lower-case form is \<open>stop\<close>;
  running out of lines is the \<open>EOFError\<close> of \<open>input()\<close>.
\<close>

fun read_hobbies :: "string list \<Rightarrow> string list \<Rightarrow> exn + string list" where
  "read_hobbies hs [] = Inl EOFError"
| "read_hobbies hs (hobby # rest) =
     (if lower hobby = ''stop'' then Inr hs else read_hobbies (hs @ [hobby]) rest)"

text \<open>The lines that \<open>main\<close> prints, one constructor for each \<open>print\<close>.\<close>

datatype profile_line =
  Rule
  | Profile_Summary
  | Name_Line string
  | Age_Line int
  | Life_Stage_Line string
  | No_Hobbies
  | Favorite_Hobbies nat
  | Hobby_Line string

definition print_profile :: "user_profile \<Rightarrow> profile_line list" where
  "print_profile p =
     [Rule, Profile_Summary, Name_Line (profile_name p), Age_Line (age p),
      Life_Stage_Line (life_stage p)]
     @ (if hobbies p = [] then [No_Hobbies]
        else Favorite_Hobbies (length (hobbies p)) # map Hobby_Line (hobbies p))
     @ [Rule]"

text \<open>
  \<^verbatim>\<open>
  def main():
      user_name = input("Enter your full name: ")
      birth_year_str = input("Enter your birth year: ")
      birth_year = int(birth_year_str)
      current_age = 2025 - birth_year
      hobbies = [] ... (the hobby loop)
      life_stage = generate_profile(current_age)
      user_profile = {...}
      print ...
  \<close>
  The console input is the list of lines typed. The result is the profile built and the
  lines printed, or the exception that ends the program. A primed name is the source's
  local variable of that name (the unprimed one is the record field).
\<close>

definition lecture_2_main :: "string list \<Rightarrow> exn + (user_profile \<times> profile_line list)" where
  "lecture_2_main stdin =
     (case stdin of
        [] \<Rightarrow> Inl EOFError
      | [user_name] \<Rightarrow> Inl EOFError
      | user_name # birth_year_str # rest \<Rightarrow>
          (case py_int birth_year_str of
             None \<Rightarrow> Inl ValueError
           | Some birth_year' \<Rightarrow>
               (let current_age = 2025 - birth_year' in
                case read_hobbies [] rest of
                  Inl e \<Rightarrow> Inl e
                | Inr hobbies' \<Rightarrow>
                    (let life_stage' = generate_profile current_age;
                         user_profile = \<lparr>profile_name = user_name, birth_year = birth_year',
                           age = current_age, life_stage = life_stage', hobbies = hobbies'\<rparr>
                     in Inr (user_profile, print_profile user_profile)))))"

section \<open>lecture\_3: the student grade analyzer\<close>

subsection \<open>Grades and students\<close>

text \<open>
  A Python \<open>float\<close> is a finite number, an infinity or a NaN. Finite values are modelled
  as rationals with exact arithmetic: rounding to 53 bits and overflow are not modelled.
  The order \<open><=\<close> is the one of IEEE 754: a NaN compares false with everything.
\<close>

datatype pyfloat = Finite rat | PosInf | NegInf | NaN

fun float_le :: "pyfloat \<Rightarrow> pyfloat \<Rightarrow> bool" where
  "float_le NaN y = False"
| "float_le x NaN = False"
| "float_le NegInf y = True"
| "float_le x PosInf = True"
| "float_le (Finite a) (Finite b) = (a \<le> b)"
| "float_le x y = False"

text \<open>
  Only a grade that passed \<open>validate_grade\<close> is ever stored, and such a grade is finite
  (lemma \<open>validate_grade_iff\<close>), so a grades list holds rationals. \<open>float_value\<close> reads the
  number of a finite float.
\<close>

definition float_value :: "pyfloat \<Rightarrow> rat" where
  "float_value g = (case g of Finite r \<Rightarrow> r | _ \<Rightarrow> 0)"

text \<open>A student is the dictionary \<open>{"name": ..., "grades": [...]}\<close>; the roster is a list.\<close>

record student =
  name :: string
  grades :: "rat list"

type_synonym roster = "student list"

text \<open>\<open>return name.isalpha()\<close>\<close>

definition validate_student_name :: "string \<Rightarrow> bool" where
  "validate_student_name name' = isalpha name'"

text \<open>\<open>return 0 <= grade <= 100\<close>\<close>

definition validate_grade :: "pyfloat \<Rightarrow> bool" where
  "validate_grade grade = (float_le (Finite 0) grade \<and> float_le grade (Finite 100))"

text \<open>
  \<open>find_student_by_name\<close> returns the first student whose lower-cased name equals the
  lower-cased \<open>name\<close>, or \<open>None\<close>. The dictionary returned is the one stored in the list
  (the caller appends grades to it in place), so the model returns its position.
\<close>

fun find_student_by_name :: "roster \<Rightarrow> string \<Rightarrow> nat option" where
  "find_student_by_name [] name' = None"
| "find_student_by_name (student # students) name' =
     (if lower (name student) = lower name' then Some 0
      else map_option Suc (find_student_by_name students name'))"

text \<open>\<open>return any(student["name"].lower() == name.lower() for student in students)\<close>\<close>

definition is_duplicate_student :: "roster \<Rightarrow> string \<Rightarrow> bool" where
  "is_duplicate_student students name' =
     list_ex (\<lambda>student. lower (name student) = lower name') students"

text \<open>
  \<^verbatim>\<open>
  def calculate_average(grades):
      if not grades:
          return None
      return sum(grades) / len(grades)
  \<close>
\<close>

definition calculate_average :: "rat list \<Rightarrow> rat option" where
  "calculate_average grades' =
     (if grades' = [] then None
      else Some (sum_list grades' / of_nat (length grades')))"

text \<open>
  The builtins \<open>max\<close> and \<open>min\<close> on a non-empty sequence, given as its first element
  and the rest: the candidate is replaced only by a strictly greater (smaller) key, so
  the first of several extremal elements is returned.
\<close>

fun py_max_key :: "('a \<Rightarrow> rat) \<Rightarrow> 'a \<Rightarrow> 'a list \<Rightarrow> 'a" where
  "py_max_key key m [] = m"
| "py_max_key key m (x # xs) = py_max_key key (if key x > key m then x else m) xs"

fun py_min_key :: "('a \<Rightarrow> rat) \<Rightarrow> 'a \<Rightarrow> 'a list \<Rightarrow> 'a" where
  "py_min_key key m [] = m"
| "py_min_key key m (x # xs) = py_min_key key (if key x < key m then x else m) xs"

definition py_max :: "rat \<Rightarrow> rat list \<Rightarrow> rat" where
  "py_max m xs = py_max_key (\<lambda>x. x) m xs"

definition py_min :: "rat \<Rightarrow> rat list \<Rightarrow> rat" where
  "py_min m xs = py_min_key (\<lambda>x. x) m xs"

text \<open>
  \<^verbatim>\<open>
  def calculate_summary_statistics(students):
      averages = []
      for student in students:
          avg = calculate_average(student["grades"])
          if avg is not None:
              averages.append(avg)
      if not averages:
          return {"highest": None, "lowest": None, "overall": None}
      return {"highest": max(averages), "lowest": min(averages),
              "overall": sum(averages) / len(averages)}
  \<close>
\<close>

record statistics =
  highest :: "rat option"
  lowest :: "rat option"
  overall :: "rat option"

fun collect_averages :: "roster \<Rightarrow> rat list \<Rightarrow> rat list" where
  "collect_averages [] averages = averages"
| "collect_averages (student # students) averages =
     (case calculate_average (grades student) of
        None \<Rightarrow> collect_averages students averages
      | Some avg \<Rightarrow> collect_averages students (averages @ [avg]))"

definition calculate_summary_statistics :: "roster \<Rightarrow> statistics" where
  "calculate_summary_statistics students =
     (case collect_averages students [] of
        [] \<Rightarrow> \<lparr>highest = None, lowest = None, overall = None\<rparr>
      | a # as \<Rightarrow>
          \<lparr>highest = Some (py_max a as), lowest = Some (py_min a as),
           overall = Some (sum_list (a # as) / of_nat (length (a # as)))\<rparr>)"

text \<open>
  \<^verbatim>\<open>
  def find_top_performer_data(students):
      students_with_grades = [student for student in students if student["grades"]]
      if not students_with_grades:
          return None, None
      top_student = max(students_with_grades,
                        key=lambda student: calculate_average(student["grades"]) or 0)
      top_avg = calculate_average(top_student["grades"])
      return top_student, top_avg
  \<close>
  \<open>x or 0\<close> is \<open>0\<close> when \<open>x\<close> is \<open>None\<close> or zero, and \<open>x\<close> otherwise.
\<close>

definition average_or_0 :: "student \<Rightarrow> rat" where
  "average_or_0 student =
     (case calculate_average (grades student) of
        None \<Rightarrow> 0
      | Some avg \<Rightarrow> if avg = 0 then 0 else avg)"

definition find_top_performer_data :: "roster \<Rightarrow> student option \<times> rat option" where
  "find_top_performer_data students =
     (let students_with_grades = filter (\<lambda>student. grades student \<noteq> []) students in
      case students_with_grades of
        [] \<Rightarrow> (None, None)
      | s # ss \<Rightarrow>
          (let top_student = py_max_key average_or_0 s ss;
               top_avg = calculate_average (grades top_student)
           in (Some top_student, top_avg)))"

subsection \<open>Reading a grade\<close>

text \<open>
  \<open>float(s)\<close> on a string: surrounding whitespace is dropped; then an optional sign and
  either \<open>inf\<close>, \<open>infinity\<close> or \<open>nan\<close> in any case, or a decimal number: digits with
  an optional point (at least one digit before or after it) and an optional exponent
  \<open>e\<close> or \<open>E\<close> with an optional sign. Single underscores may separate digits.
  \<open>None\<close> stands for the \<open>ValueError\<close> of the builtin.
\<close>

definition pow10 :: "int \<Rightarrow> rat" where
  "pow10 e = (if e \<ge> 0 then 10 ^ nat e else 1 / 10 ^ nat (- e))"

definition is_exp_char :: "char \<Rightarrow> bool" where
  "is_exp_char c = (c = CHR ''e'' \<or> c = CHR ''E'')"

definition signed_digits :: "string \<Rightarrow> int option" where
  "signed_digits s =
     (case s of
        [] \<Rightarrow> None
      | c # cs \<Rightarrow>
          if c = CHR ''-'' then map_option (\<lambda>n. - int n) (digits 0 False cs)
          else if c = CHR ''+'' then map_option int (digits 0 False cs)
          else map_option int (digits 0 False (c # cs)))"

text \<open>The digits before and after the point, as a rational.\<close>

definition mantissa :: "string \<Rightarrow> rat option" where
  "mantissa s =
     (let ip = takeWhile (\<lambda>c. c \<noteq> CHR ''.'') s;
          pt = dropWhile (\<lambda>c. c \<noteq> CHR ''.'') s
      in if pt = [] then map_option of_nat (digits 0 False ip)
         else
           (let fp = tl pt;
                scale = (10 :: rat) ^ length (filter is_digit_char fp)
            in if ip = [] then map_option (\<lambda>f. of_nat f / scale) (digits 0 False fp)
               else if fp = [] then map_option of_nat (digits 0 False ip)
               else
                 (case (digits 0 False ip, digits 0 False fp) of
                    (Some i, Some f) \<Rightarrow> Some (of_nat i + of_nat f / scale)
                  | _ \<Rightarrow> None)))"

definition float_number :: "string \<Rightarrow> rat option" where
  "float_number s =
     (let m = takeWhile (\<lambda>c. \<not> is_exp_char c) s;
          ex = dropWhile (\<lambda>c. \<not> is_exp_char c) s
      in case mantissa m of
           None \<Rightarrow> None
         | Some v \<Rightarrow>
             if ex = [] then Some v
             else map_option (\<lambda>e. v * pow10 e) (signed_digits (tl ex)))"

definition float_unsigned :: "string \<Rightarrow> pyfloat option" where
  "float_unsigned s =
     (if lower s = ''inf'' \<or> lower s = ''infinity'' then Some PosInf
      else if lower s = ''nan'' then Some NaN
      else map_option Finite (float_number s))"

fun float_neg :: "pyfloat \<Rightarrow> pyfloat" where
  "float_neg (Finite r) = Finite (- r)"
| "float_neg PosInf = NegInf"
| "float_neg NegInf = PosInf"
| "float_neg NaN = NaN"

definition py_float :: "string \<Rightarrow> pyfloat option" where
  "py_float s =
     (case strip s of
        [] \<Rightarrow> None
      | c # cs \<Rightarrow>
          if c = CHR ''-'' then map_option float_neg (float_unsigned cs)
          else if c = CHR ''+'' then float_unsigned cs
          else float_unsigned (c # cs))"

text \<open>
  \<^verbatim>\<open>
  def get_student_name_input() -> str:
      return input("Enter student name: ").strip()

  def get_grade_input():
      grade_input = input("Grade: ").strip().lower()
      if grade_input == 'done':
          return grade_input, None
      try:
          grade = float(grade_input)
          return grade_input, grade
      except ValueError:
          return grade_input, None
  \<close>
  Both take the line that \<open>input\<close> returned; the caller handles the case that no line
  is left, where \<open>input\<close> raises \<open>EOFError\<close>.
\<close>

definition get_student_name_input :: "string \<Rightarrow> string" where
  "get_student_name_input line = strip line"

definition get_grade_input :: "string \<Rightarrow> string \<times> pyfloat option" where
  "get_grade_input line =
     (let grade_input = lower (strip line) in
      if grade_input = ''done'' then (grade_input, None)
      else (grade_input, py_float grade_input))"

subsection \<open>The menu operations\<close>

text \<open>
  What the program prints, one constructor for each message. A message that shows a
  number carries the number, not its text.
\<close>

datatype message =
  Welcome
  | Menu
  | Err_Name_Letters
  | Err_Student_Exists string
  | Student_Added string
  | Err_No_Students_Add_First
  | Err_Student_Not_Found string
  | Adding_Grades_For string
  | Enter_Grades
  | Err_Invalid_Input
  | Err_Grade_Range
  | Grade_Added rat
  | Completed nat string nat
  | No_Students_Available
  | Report_Header
  | Average_NA string
  | Average_Is string rat
  | No_Grades_For_Summary
  | Dashes
  | Highest_Average rat
  | Lowest_Average rat
  | Overall_Average rat
  | Err_No_Students
  | No_Students_With_Grades
  | Top_Performer_Header
  | Top_Performer string rat
  | Goodbye
  | Err_Invalid_Choice
  | Unexpected_Error exn

definition display_student_report :: "roster \<Rightarrow> message list" where
  "display_student_report students =
     map (\<lambda>student.
            case calculate_average (grades student) of
              None \<Rightarrow> Average_NA (name student)
            | Some avg \<Rightarrow> Average_Is (name student) avg) students"

text \<open>
  Formatting a missing value with \<open>:.2f\<close> raises \<open>TypeError\<close>; an operation returns the
  exception it raised, if any, next to what it printed before.
\<close>

definition display_summary_statistics :: "statistics \<Rightarrow> exn option \<times> message list" where
  "display_summary_statistics stats =
     (case highest stats of
        None \<Rightarrow> (None, [No_Grades_For_Summary])
      | Some h \<Rightarrow>
          (case lowest stats of
             None \<Rightarrow> (Some TypeError, [Dashes, Highest_Average h])
           | Some l \<Rightarrow>
               (case overall stats of
                  None \<Rightarrow> (Some TypeError, [Dashes, Highest_Average h, Lowest_Average l])
                | Some ov \<Rightarrow>
                    (None, [Dashes, Highest_Average h, Lowest_Average l,
                            Overall_Average ov]))))"

definition display_top_performer :: "student option \<Rightarrow> rat option \<Rightarrow> exn option \<times> message list"
  where
  "display_top_performer top_student top_avg =
     (case top_student of
        None \<Rightarrow> (None, [No_Students_With_Grades])
      | Some s \<Rightarrow>
          (case top_avg of
             None \<Rightarrow> (Some TypeError, [Top_Performer_Header])
           | Some avg \<Rightarrow> (None, [Top_Performer_Header, Top_Performer (name s) avg])))"

text \<open>\<open>return {"name": name, "grades": []}\<close>\<close>

definition create_new_student :: "string \<Rightarrow> student" where
  "create_new_student name' = \<lparr>name = name', grades = []\<rparr>"

text \<open>
  An operation that reads the console takes the lines still to be read and returns, in
  this order: the exception it raised (if any), the data it changed, the lines left, and
  the messages it printed. The students are changed in place in the source, so a change
  made before an exception stays.

  \<^verbatim>\<open>
  def add_grades_to_student(student):
      print(...); print(...)
      grades_added = 0
      while True:
          grade_input, grade = get_grade_input()
          if grade_input == 'done':
              break
          if grade is None:
              print("Error: Invalid input! Please enter a number or 'done'.")
              continue
          if not validate_grade(grade):
              print("Error: Grade must be between 0 and 100!")
              continue
          student["grades"].append(grade)
          grades_added += 1
          print(f"Success: Grade {grade} added!")
      print(f"Completed: ...")
  \<close>
  \<open>grades_loop\<close> is the \<open>while\<close> loop; \<open>out\<close> collects what was printed so far.
\<close>

fun grades_loop ::
  "student \<Rightarrow> nat \<Rightarrow> string list \<Rightarrow> message list \<Rightarrow>
   exn option \<times> student \<times> nat \<times> string list \<times> message list" where
  "grades_loop student grades_added [] out = (Some EOFError, student, grades_added, [], out)"
| "grades_loop student grades_added (line # rest) out =
     (case get_grade_input line of
        (grade_input, grade) \<Rightarrow>
          if grade_input = ''done'' then (None, student, grades_added, rest, out)
          else
            (case grade of
               None \<Rightarrow> grades_loop student grades_added rest (out @ [Err_Invalid_Input])
             | Some g \<Rightarrow>
                 if \<not> validate_grade g then
                   grades_loop student grades_added rest (out @ [Err_Grade_Range])
                 else
                   grades_loop (student\<lparr>grades := grades student @ [float_value g]\<rparr>)
                     (grades_added + 1) rest (out @ [Grade_Added (float_value g)])))"

definition add_grades_to_student ::
  "student \<Rightarrow> string list \<Rightarrow> exn option \<times> student \<times> string list \<times> message list" where
  "add_grades_to_student student stdin =
     (case grades_loop student 0 stdin [Adding_Grades_For (name student), Enter_Grades] of
        (None, student', grades_added, rest, out) \<Rightarrow>
          (None, student', rest,
           out @ [Completed grades_added (name student') (length (grades student'))])
      | (Some e, student', grades_added, rest, out) \<Rightarrow> (Some e, student', rest, out))"

text \<open>
  \<^verbatim>\<open>
  def add_student(students):
      name = get_student_name_input()
      if not validate_student_name(name):
          print("Error: Name should consist only of letters")
          return
      if is_duplicate_student(students, name):
          print(f"Error: Student '{name}' already exists!")
          return
      new_student = create_new_student(name)
      students.append(new_student)
      print(f"Success: Student '{name}' added successfully!")
  \<close>
\<close>

fun add_student ::
  "roster \<Rightarrow> string list \<Rightarrow> exn option \<times> roster \<times> string list \<times> message list" where
  "add_student students [] = (Some EOFError, students, [], [])"
| "add_student students (line # rest) =
     (let name' = get_student_name_input line in
      if \<not> validate_student_name name' then (None, students, rest, [Err_Name_Letters])
      else if is_duplicate_student students name' then
        (None, students, rest, [Err_Student_Exists name'])
      else
        (let new_student = create_new_student name' in
         (None, students @ [new_student], rest, [Student_Added name'])))"

text \<open>
  \<^verbatim>\<open>
  def add_grades(students):
      if not students:
          print("Error: No students available. Please add students first.")
          return
      name = get_student_name_input()
      student = find_student_by_name(students, name)
      if student is None:
          print(f"Error: Student '{name}' not found!")
          return
      add_grades_to_student(student)
  \<close>
\<close>

definition add_grades ::
  "roster \<Rightarrow> string list \<Rightarrow> exn option \<times> roster \<times> string list \<times> message list" where
  "add_grades students stdin =
     (if students = [] then (None, students, stdin, [Err_No_Students_Add_First])
      else
        (case stdin of
           [] \<Rightarrow> (Some EOFError, students, [], [])
         | line # rest \<Rightarrow>
             (let name' = get_student_name_input line in
              case find_student_by_name students name' of
                None \<Rightarrow> (None, students, rest, [Err_Student_Not_Found name'])
              | Some i \<Rightarrow>
                  (case add_grades_to_student (students ! i) rest of
                     (e, student', rest', out) \<Rightarrow> (e, students[i := student'], rest', out)))))"

text \<open>
  \<open>show_report\<close> and \<open>find_top_performer\<close> read nothing and leave the roster alone:
  they return the exception raised (if any) and the messages.
\<close>

definition show_report :: "roster \<Rightarrow> exn option \<times> message list" where
  "show_report students =
     (if students = [] then (None, [No_Students_Available])
      else
        (case display_summary_statistics (calculate_summary_statistics students) of
           (e, out) \<Rightarrow> (e, [Report_Header] @ display_student_report students @ out)))"

definition find_top_performer :: "roster \<Rightarrow> exn option \<times> message list" where
  "find_top_performer students =
     (if students = [] then (None, [Err_No_Students])
      else
        (case find_top_performer_data students of
           (top_student, top_avg) \<Rightarrow> display_top_performer top_student top_avg))"

text \<open>An operation only takes lines from the front of the input.\<close>

lemma grades_loop_stdin:
  "grades_loop student n stdin out = (e, student', n', rest, out') \<Longrightarrow>
   length rest \<le> length stdin"
proof (induction stdin arbitrary: student n out)
  case Nil
  then show ?case by simp
next
  case (Cons line stdin)
  then show ?case
    by (fastforce split: prod.splits if_splits option.splits)
qed

lemma add_grades_to_student_stdin:
  "add_grades_to_student student stdin = (e, student', rest, out) \<Longrightarrow>
   length rest \<le> length stdin"
  unfolding add_grades_to_student_def
  by (auto split: prod.splits option.splits dest: grades_loop_stdin)

lemma add_student_stdin:
  "add_student students stdin = (e, students', rest, out) \<Longrightarrow> length rest \<le> length stdin"
  by (cases stdin) (auto simp: Let_def split: if_splits)

lemma add_grades_stdin:
  "add_grades students stdin = (e, students', rest, out) \<Longrightarrow> length rest \<le> length stdin"
  unfolding add_grades_def
  by (auto simp: Let_def split: if_splits list.splits option.splits prod.splits
      dest: add_grades_to_student_stdin)

subsection \<open>The menu loop\<close>

text \<open>
  \<^verbatim>\<open>
  def main():
      students = []
      print("Welcome to Student Grade Analyzer!")
      while True:
          display_menu()
          try:
              choice = input("Enter your choice (1-5): ").strip()
              if choice == '1':   add_student(students)
              elif choice == '2': add_grades(students)
              elif choice == '3': show_report(students)
              elif choice == '4': find_top_performer(students)
              elif choice == '5': print("Thank you ..."); break
              else: print("Error: Invalid choice! ...")
          except KeyboardInterrupt: ...; break
          except Exception as e:
              print(f"An unexpected error occurred: {e}")
  \<close>
  An exception of an operation is caught, reported, and the loop goes on. The loop ends
  with choice 5. An interrupt from the keyboard is no line of input and is not modelled:
  it ends the loop and writes nothing to the roster. When the lines given are used up the run stops as \<open>Input_Exhausted\<close>
  with the roster of that moment: the source then waits for the next line (or, on a closed
  input, reports the \<open>EOFError\<close> again and again) and the roster changes no more.
\<close>

datatype run_end = Exited | Input_Exhausted

definition report_exn :: "exn option \<Rightarrow> message list" where
  "report_exn e = (case e of None \<Rightarrow> [] | Some x \<Rightarrow> [Unexpected_Error x])"

function main_loop ::
  "roster \<Rightarrow> string list \<Rightarrow> message list \<Rightarrow> run_end \<times> roster \<times> message list" where
  "main_loop students [] out = (Input_Exhausted, students, out @ [Menu])"
| "main_loop students (line # rest) out =
     (let choice = strip line in
      if choice = ''1'' then
        (case add_student students rest of
           (e, students', rest', msgs) \<Rightarrow>
             main_loop students' rest' (out @ [Menu] @ msgs @ report_exn e))
      else if choice = ''2'' then
        (case add_grades students rest of
           (e, students', rest', msgs) \<Rightarrow>
             main_loop students' rest' (out @ [Menu] @ msgs @ report_exn e))
      else if choice = ''3'' then
        (case show_report students of
           (e, msgs) \<Rightarrow> main_loop students rest (out @ [Menu] @ msgs @ report_exn e))
      else if choice = ''4'' then
        (case find_top_performer students of
           (e, msgs) \<Rightarrow> main_loop students rest (out @ [Menu] @ msgs @ report_exn e))
      else if choice = ''5'' then (Exited, students, out @ [Menu, Goodbye])
      else main_loop students rest (out @ [Menu, Err_Invalid_Choice]))"
  by pat_completeness auto

termination main_loop
proof (relation "measure (\<lambda>(students, stdin, out). length stdin)")
  show "wf (measure (\<lambda>(students, stdin, out). length stdin))" by simp
qed (auto dest: add_student_stdin [OF sym] add_grades_stdin [OF sym] simp: less_Suc_eq_le)

text \<open>\<open>main\<close> starts from the empty roster, after the welcome line.\<close>

definition lecture_3_main :: "string list \<Rightarrow> run_end \<times> roster \<times> message list" where
  "lecture_3_main stdin = main_loop [] stdin [Welcome]"

section \<open>The specification's words\<close>



text \<open>
  The age of a person born in \<open>birth_year\<close>, in the year \<open>current_year\<close>, as the
  specification's data model writes it.
\<close>

definition age_in_year :: "int \<Rightarrow> int \<Rightarrow> int" where
  "age_in_year current_year birth_year' = current_year - birth_year'"

text \<open>
  A line of the grade-entry loop ends the loop when, trimmed and lower-cased, it is
  \<open>done\<close>; every other line is a grade input.
\<close>

definition is_done :: "string \<Rightarrow> bool" where
  "is_done line = (lower (strip line) = ''done'')"

text \<open>
  The grade a grade input enters: the number it parses to, when it parses as a number
  and the value lies in [0,100]; otherwise the input is rejected (\<open>None\<close>).
\<close>

definition entered_grade :: "string \<Rightarrow> rat option" where
  "entered_grade line =
     (case py_float (lower (strip line)) of
        Some (Finite r) \<Rightarrow> if 0 \<le> r \<and> r \<le> 100 then Some r else None
      | _ \<Rightarrow> None)"

text \<open>The grades that a sequence of grade inputs enters, in order.\<close>

definition accepted_grades :: "string list \<Rightarrow> rat list" where
  "accepted_grades inputs = List.map_filter entered_grade inputs"

text \<open>What is reported for a grade input: an error when it is rejected, a success otherwise.\<close>

definition grade_response :: "string \<Rightarrow> message" where
  "grade_response line =
     (case entered_grade line of
        Some r \<Rightarrow> Grade_Added r
      | None \<Rightarrow>
          if py_float (lower (strip line)) = None then Err_Invalid_Input else Err_Grade_Range)"

text \<open>
  The invariant of the roster, as the data model states it: names purely alphabetic,
  pairwise distinct when compared case-insensitively, every grade in [0,100].
\<close>

definition roster_invariant :: "roster \<Rightarrow> bool" where
  "roster_invariant students =
     ((\<forall>s \<in> set students. isalpha (name s)) \<and>
      distinct (map (\<lambda>s. lower (name s)) students) \<and>
      (\<forall>s \<in> set students. \<forall>g \<in> set (grades s). 0 \<le> g \<and> g \<le> 100))"

section \<open>Properties of the profile classifier\<close>

text \<open>
  Claim C3. For every integer age \<open>a\<close> the classifier returns one of the four labels,
  by range: \<open>Child\<close> exactly when \<open>0 \<le> a \<le> 12\<close>, \<open>Teenager\<close> exactly when
  \<open>13 \<le> a \<le> 19\<close>, \<open>Adult\<close> exactly when \<open>a \<ge> 20\<close> and \<open>Unknown\<close> exactly when \<open>a\<close>
  is negative; 12 is a child, 13 a teenager, and -1 is unknown. The function is a total
  HOL function: it has a value at every integer.
\<close>

theorem generate_profile_ranges:
  "(generate_profile a = ''Child'') = (0 \<le> a \<and> a \<le> 12) \<and>
   (generate_profile a = ''Teenager'') = (13 \<le> a \<and> a \<le> 19) \<and>
   (generate_profile a = ''Adult'') = (20 \<le> a) \<and>
   (generate_profile a = ''Unknown'') = (a < 0) \<and>
   generate_profile a \<in> {''Child'', ''Teenager'', ''Adult'', ''Unknown''} \<and>
   generate_profile 12 = ''Child'' \<and> generate_profile 13 = ''Teenager'' \<and>
   generate_profile (- 1) = ''Unknown''"
  by (auto simp: generate_profile_def)

section \<open>Properties of the averages\<close>






subsection \<open>Summary statistics\<close>









subsection \<open>Top performer\<close>







section \<open>Properties of the profile program\<close>

lemma read_hobbies_append:
  "\<forall>h \<in> set hs. lower h \<noteq> ''stop'' \<Longrightarrow> lower stop = ''stop'' \<Longrightarrow>
   read_hobbies acc (hs @ stop # later) = Inr (acc @ hs)"
  by (induction hs arbitrary: acc) simp_all

text \<open>
  The program has no clock: the year it subtracts from is the literal 2025. For a person
  born in 2000 it prints the age 25 in every run, also in a run in the year 2026, where
  the current year minus the birth year is 26.
\<close>

theorem age_current_year_counterexample:
  "lecture_2_main [''Ann'', ''2000'', ''stop''] =
     Inr (\<lparr>profile_name = ''Ann'', birth_year = 2000, age = 25, life_stage = ''Adult'',
            hobbies = []\<rparr>,
          [Rule, Profile_Summary, Name_Line ''Ann'', Age_Line 25, Life_Stage_Line ''Adult'',
           No_Hobbies, Rule]) \<and>
   age_in_year 2026 2000 \<noteq> 25"
  by (simp add: age_in_year_def) code_simp

text \<open>
  Claim C7, amended. For every birth year entered as an integer literal, and hobbies
  ended by \<open>stop\<close>, the program computes the age as 2025 minus the birth year (2025 is a
  constant of the program, not the year of the run); the age and the life stage of the
  profile and of the printed summary are derived from that value.
\<close>

theorem lecture_2_main_age:
  assumes "py_int birth_year_str = Some b"
    and "\<forall>h \<in> set hs. lower h \<noteq> ''stop''"
    and "lower stop = ''stop''"
  shows "\<exists>p out. lecture_2_main (user_name # birth_year_str # hs @ stop # later) = Inr (p, out) \<and>
      birth_year p = b \<and> age p = 2025 - b \<and>
      life_stage p = generate_profile (2025 - b) \<and>
      Age_Line (2025 - b) \<in> set out \<and>
      Life_Stage_Line (generate_profile (2025 - b)) \<in> set out"
  using assms
  by (simp add: lecture_2_main_def read_hobbies_append print_profile_def Let_def)

theorem lecture_2_main_age_witness:
  "py_int ''2000'' = Some 2000 \<and> lower ''chess'' \<noteq> ''stop'' \<and> lower ''STOP'' = ''stop'' \<and>
   (\<exists>p out. lecture_2_main [''Ann'', ''2000'', ''chess'', ''STOP''] = Inr (p, out) \<and>
      birth_year p = 2000 \<and> age p = 25 \<and> life_stage p = ''Adult'' \<and>
      Age_Line 25 \<in> set out \<and> Life_Stage_Line ''Adult'' \<in> set out)"
proof -
  have a: "py_int ''2000'' = Some 2000" by code_simp
  have b: "\<forall>h \<in> set [''chess'']. lower h \<noteq> ''stop''" by code_simp
  have c: "lower ''STOP'' = ''stop''" by code_simp
  have d: "lower ''chess'' \<noteq> ''stop''" by code_simp
  show ?thesis
    using lecture_2_main_age [OF a b c, of "''Ann''" "[]"] a c d
    by (simp add: generate_profile_def)
qed

section \<open>Properties of the grade entry\<close>

lemma validate_grade_iff:
  "validate_grade g = (\<exists>r. g = Finite r \<and> 0 \<le> r \<and> r \<le> 100)"
  by (cases g) (auto simp: validate_grade_def)

lemma entered_grade_Some:
  "entered_grade line = Some r \<Longrightarrow>
   \<exists>g. py_float (lower (strip line)) = Some g \<and> validate_grade g \<and> float_value g = r"
  by (auto simp: entered_grade_def validate_grade_iff float_value_def
      split: option.splits pyfloat.splits if_splits)

lemma entered_grade_None:
  "entered_grade line = None \<Longrightarrow> py_float (lower (strip line)) = Some g \<Longrightarrow> \<not> validate_grade g"
  by (auto simp: entered_grade_def validate_grade_iff split: option.splits pyfloat.splits if_splits)

lemma grades_loop_step:
  assumes "\<not> is_done line"
  shows "grades_loop student n (line # rest) out =
     (case entered_grade line of
        None \<Rightarrow> grades_loop student n rest (out @ [grade_response line])
      | Some r \<Rightarrow>
          grades_loop (student\<lparr>grades := grades student @ [r]\<rparr>) (n + 1) rest
            (out @ [grade_response line]))"
proof (cases "entered_grade line")
  case None
  then show ?thesis
    using assms entered_grade_None [OF None]
    by (auto simp: is_done_def get_grade_input_def grade_response_def Let_def
        split: option.splits)
next
  case (Some r)
  with entered_grade_Some [OF Some] assms show ?thesis
    by (auto simp: is_done_def get_grade_input_def grade_response_def Let_def)
qed


lemma grades_loop_append:
  "\<forall>l \<in> set inputs. \<not> is_done l \<Longrightarrow>
   grades_loop student n (inputs @ tail) out =
     grades_loop (student\<lparr>grades := grades student @ accepted_grades inputs\<rparr>)
       (n + length (accepted_grades inputs)) tail (out @ map grade_response inputs)"
proof (induction inputs arbitrary: student n out)
  case Nil
  then show ?case by (simp add: accepted_grades_def)
next
  case (Cons l inputs)
  then have nd: "\<not> is_done l" and rest: "\<forall>l \<in> set inputs. \<not> is_done l" by auto
  show ?case
  proof (cases "entered_grade l")
    case None
    then show ?thesis
      using grades_loop_step [OF nd] Cons.IH [OF rest]
      by (simp add: accepted_grades_def)
  next
    case (Some r)
    then show ?thesis
      using grades_loop_step [OF nd] Cons.IH [OF rest]
      by (simp add: accepted_grades_def)
  qed
qed



lemma entered_grade_None_iff:
  "(entered_grade line = None) =
     (py_float (lower (strip line)) = None \<or>
      (\<exists>g. py_float (lower (strip line)) = Some g \<and> \<not> validate_grade g))"
  by (auto simp: entered_grade_def validate_grade_iff split: option.splits pyfloat.splits)





section \<open>Properties of the roster operations\<close>

subsection \<open>The invariant is kept\<close>

lemma is_duplicate_student_iff:
  "is_duplicate_student students n = (\<exists>s \<in> set students. lower (name s) = lower n)"
  by (simp add: is_duplicate_student_def list_ex_iff)

lemma add_student_cases:
  "add_student students (line # rest) =
     (if \<not> isalpha (strip line) then (None, students, rest, [Err_Name_Letters])
      else if \<exists>s \<in> set students. lower (name s) = lower (strip line)
        then (None, students, rest, [Err_Student_Exists (strip line)])
      else (None, students @ [\<lparr>name = strip line, grades = []\<rparr>], rest,
            [Student_Added (strip line)]))"
  by (simp add: Let_def get_student_name_input_def validate_student_name_def
      is_duplicate_student_iff create_new_student_def)

lemma add_student_inv:
  assumes "roster_invariant students"
  shows "roster_invariant (fst (snd (add_student students stdin)))"
proof (cases stdin)
  case Nil
  with assms show ?thesis by simp
next
  case (Cons line rest)
  show ?thesis
    unfolding Cons add_student_cases
    using assms by (auto simp: roster_invariant_def)
qed

lemma validate_grade_value:
  "validate_grade g \<Longrightarrow> 0 \<le> float_value g \<and> float_value g \<le> 100"
  by (auto simp: validate_grade_iff float_value_def)

lemma grades_loop_inv:
  "grades_loop student n stdin out = (e, student', n', rest, out') \<Longrightarrow>
   name student' = name student \<and>
   set (grades student') \<subseteq> set (grades student) \<union> {r. 0 \<le> r \<and> r \<le> 100}"
proof (induction stdin arbitrary: student n out)
  case Nil
  then show ?case by auto
next
  case (Cons line stdin)
  obtain grade_input grade where gi: "get_grade_input line = (grade_input, grade)"
    by (cases "get_grade_input line")
  show ?case
  proof (cases "grade_input = ''done''")
    case True
    with Cons.prems gi show ?thesis by auto
  next
    case nd: False
    show ?thesis
    proof (cases grade)
      case None
      with Cons.prems gi nd
      have "grades_loop student n stdin (out @ [Err_Invalid_Input]) = (e, student', n', rest, out')"
        by simp
      from Cons.IH [OF this] show ?thesis .
    next
      case (Some g)
      show ?thesis
      proof (cases "validate_grade g")
        case False
        with Cons.prems gi nd Some
        have "grades_loop student n stdin (out @ [Err_Grade_Range]) = (e, student', n', rest, out')"
          by simp
        from Cons.IH [OF this] show ?thesis .
      next
        case True
        with Cons.prems gi nd Some
        have "grades_loop (student\<lparr>grades := grades student @ [float_value g]\<rparr>) (n + 1) stdin
            (out @ [Grade_Added (float_value g)]) = (e, student', n', rest, out')"
          by simp
        from Cons.IH [OF this] validate_grade_value [OF True] show ?thesis by auto
      qed
    qed
  qed
qed

lemma add_grades_to_student_inv:
  "add_grades_to_student student stdin = (e, student', rest, out) \<Longrightarrow>
   name student' = name student \<and>
   set (grades student') \<subseteq> set (grades student) \<union> {r. 0 \<le> r \<and> r \<le> 100}"
  unfolding add_grades_to_student_def
  by (auto split: prod.splits option.splits dest!: grades_loop_inv)

lemma find_student_by_name_Some:
  "find_student_by_name students n = Some i \<Longrightarrow>
   i < length students \<and> lower (name (students ! i)) = lower n"
  by (induction students arbitrary: i) (auto split: if_splits)

lemma find_student_by_name_None:
  "(find_student_by_name students n = None) = (\<forall>s \<in> set students. lower (name s) \<noteq> lower n)"
  by (induction students) auto

lemma roster_invariant_update:
  assumes "roster_invariant students" and "i < length students"
    and "name student' = name (students ! i)"
    and "set (grades student') \<subseteq> set (grades (students ! i)) \<union> {r. 0 \<le> r \<and> r \<le> 100}"
  shows "roster_invariant (students[i := student'])"
proof -
  have names: "map (\<lambda>s. lower (name s)) (students[i := student']) =
      map (\<lambda>s. lower (name s)) students"
    using assms(2,3) by (simp add: map_update list_update_same_conv)
  have mem: "students ! i \<in> set students" using assms(2) by simp
  have "\<forall>s \<in> set (students[i := student']). isalpha (name s) \<and>
      (\<forall>g \<in> set (grades s). 0 \<le> g \<and> g \<le> 100)"
  proof
    fix s assume "s \<in> set (students[i := student'])"
    then have "s = student' \<or> s \<in> set students"
      using set_update_subset_insert [of students i student'] by auto
    then show "isalpha (name s) \<and> (\<forall>g \<in> set (grades s). 0 \<le> g \<and> g \<le> 100)"
      using assms(1,3,4) mem unfolding roster_invariant_def by auto
  qed
  with assms(1) names show ?thesis
    unfolding roster_invariant_def by simp
qed

lemma add_grades_inv:
  assumes "roster_invariant students"
  shows "roster_invariant (fst (snd (add_grades students stdin)))"
proof (cases "students = [] \<or> stdin = []")
  case True
  with assms show ?thesis by (auto simp: add_grades_def)
next
  case False
  then obtain line rest where stdin: "stdin = line # rest" and ne: "students \<noteq> []"
    by (cases stdin) auto
  show ?thesis
  proof (cases "find_student_by_name students (get_student_name_input line)")
    case None
    with assms stdin ne show ?thesis by (simp add: add_grades_def)
  next
    case (Some i)
    obtain e student' rest' out
      where r: "add_grades_to_student (students ! i) rest = (e, student', rest', out)"
      by (cases "add_grades_to_student (students ! i) rest") auto
    have "roster_invariant (students[i := student'])"
      using roster_invariant_update [OF assms] find_student_by_name_Some [OF Some]
        add_grades_to_student_inv [OF r] by blast
    with Some stdin ne r show ?thesis by (simp add: add_grades_def)
  qed
qed

lemma main_loop_inv:
  "roster_invariant students \<Longrightarrow> roster_invariant (fst (snd (main_loop students stdin out)))"
proof (induction students stdin out rule: main_loop.induct)
  case (1 students out)
  then show ?case by simp
next
  case (2 students line rest out)
  show ?case
    using 2 add_student_inv [OF "2.prems", of rest] add_grades_inv [OF "2.prems", of rest]
    by (auto simp: Let_def split: prod.splits)
qed

subsection \<open>Adding a student\<close>

text \<open>
  The name that \<open>add_student\<close> validates is the entered line with leading and trailing
  whitespace removed. The entered name \<open>" John"\<close> is not purely alphabetic, and it is
  not rejected: the student \<open>John\<close> is added.
\<close>

theorem add_student_padded_counterexample:
  "\<not> isalpha '' John'' \<and>
   add_student [] ['' John''] =
     (None, [\<lparr>name = ''John'', grades = []\<rparr>], [], [Student_Added ''John''])"
  by code_simp

text \<open>
  Claim C4, amended. For every roster and every entered line, \<open>add_student\<close> rejects the
  entry (it reports an error and leaves the roster as it is) exactly when the entered
  name with leading and trailing whitespace removed is not purely alphabetic, or some
  student's name equals it under case-insensitive comparison; otherwise it appends a new
  student with the trimmed name and no grades.
\<close>

theorem add_student_spec:
  "add_student students (line # rest) =
     (if \<not> isalpha (strip line) then (None, students, rest, [Err_Name_Letters])
      else if \<exists>s \<in> set students. lower (name s) = lower (strip line)
        then (None, students, rest, [Err_Student_Exists (strip line)])
      else (None, students @ [\<lparr>name = strip line, grades = []\<rparr>], rest,
            [Student_Added (strip line)])) \<and>
   (fst (snd (add_student students (line # rest))) = students) =
     (\<not> isalpha (strip line) \<or> (\<exists>s \<in> set students. lower (name s) = lower (strip line)))"
  unfolding add_student_cases by simp

text \<open>Adding \<open>John\<close> and then \<open>john\<close>: the second is rejected as a duplicate.\<close>

theorem add_student_spec_witness:
  "add_student [] [''John'', ''john''] =
     (None, [\<lparr>name = ''John'', grades = []\<rparr>], [''john''], [Student_Added ''John'']) \<and>
   add_student [\<lparr>name = ''John'', grades = []\<rparr>] [''john''] =
     (None, [\<lparr>name = ''John'', grades = []\<rparr>], [], [Err_Student_Exists ''john''])"
proof -
  have a: "strip ''John'' = ''John''" "strip ''john'' = ''john''" by code_simp+
  have b: "isalpha ''John''" "isalpha ''john''" by code_simp+
  have c: "lower ''John'' = ''john''" "lower ''john'' = ''john''" by code_simp+
  show ?thesis
    using add_student_spec [of "[]" "''John''" "[''john'']"]
      add_student_spec [of "[\<lparr>name = ''John'', grades = []\<rparr>]" "''john''" "[]"]
    by (simp add: a b c)
qed

lemma isalpha_iff: "isalpha s = (s \<noteq> [] \<and> (\<forall>c \<in> set s. is_alpha_char c))"
  by (simp add: isalpha_def list_all_iff)

lemma not_alpha_char: "is_space_char c \<or> is_digit_char c \<Longrightarrow> \<not> is_alpha_char c"
  by (auto simp: is_space_char_def is_digit_char_def is_alpha_char_def is_upper_char_def
      is_lower_char_def)

text \<open>
  The entered name \<open>"John "\<close> contains a space, and it is not rejected: the trailing
  space is removed before the validation and the student \<open>John\<close> is added.
\<close>

theorem add_student_trailing_space_counterexample:
  "CHR '' '' \<in> set ''John '' \<and> is_space_char CHR '' '' \<and>
   add_student [] [''John ''] =
     (None, [\<lparr>name = ''John'', grades = []\<rparr>], [], [Student_Added ''John''])"
  by code_simp

text \<open>
  Claim C9, amended. For every roster, \<open>add_student\<close> rejects every entry that, with
  leading and trailing whitespace removed, is the empty string or contains a space, a
  digit or another character that is not a letter (the validation is letters-only on the
  whole trimmed string); so the entries \<open>""\<close> and \<open>"John Smith"\<close> are rejected, and
  in no run of the program does the roster hold a student named \<open>John Smith\<close> or any
  name that is empty or has a character that is not a letter.
\<close>

theorem add_student_letters_only:
  "((strip line = [] \<or>
     (\<exists>c \<in> set (strip line). is_space_char c \<or> is_digit_char c \<or> \<not> is_alpha_char c)) \<longrightarrow>
      add_student students (line # rest) = (None, students, rest, [Err_Name_Letters])) \<and>
   add_student students ([] # rest) = (None, students, rest, [Err_Name_Letters]) \<and>
   add_student students (''John Smith'' # rest) = (None, students, rest, [Err_Name_Letters]) \<and>
   (\<forall>s \<in> set (fst (snd (lecture_3_main stdin))).
      name s \<noteq> ''John Smith'' \<and> name s \<noteq> [] \<and>
      (\<forall>c \<in> set (name s). is_alpha_char c \<and> \<not> is_space_char c \<and> \<not> is_digit_char c))"
proof -
  have general: "(strip line = [] \<or>
     (\<exists>c \<in> set (strip line). is_space_char c \<or> is_digit_char c \<or> \<not> is_alpha_char c)) \<longrightarrow>
      add_student students (line # rest) = (None, students, rest, [Err_Name_Letters])"
    unfolding add_student_cases using not_alpha_char by (auto simp: isalpha_iff)
  have empty: "add_student students ([] # rest) = (None, students, rest, [Err_Name_Letters])"
    unfolding add_student_cases by (simp add: strip_def isalpha_def)
  have "strip ''John Smith'' = ''John Smith''" by code_simp
  moreover have "\<not> isalpha ''John Smith''" by code_simp
  ultimately have smith:
    "add_student students (''John Smith'' # rest) = (None, students, rest, [Err_Name_Letters])"
    unfolding add_student_cases by simp
  have "roster_invariant (fst (snd (lecture_3_main stdin)))"
    unfolding lecture_3_main_def by (rule main_loop_inv) (simp add: roster_invariant_def)
  then have alpha: "\<forall>s \<in> set (fst (snd (lecture_3_main stdin))). isalpha (name s)"
    by (simp add: roster_invariant_def)
  have roster: "\<forall>s \<in> set (fst (snd (lecture_3_main stdin))).
      name s \<noteq> ''John Smith'' \<and> name s \<noteq> [] \<and>
      (\<forall>c \<in> set (name s). is_alpha_char c \<and> \<not> is_space_char c \<and> \<not> is_digit_char c)"
  proof
    fix s assume "s \<in> set (fst (snd (lecture_3_main stdin)))"
    with alpha have a: "isalpha (name s)" by blast
    then have "name s \<noteq> ''John Smith''" using \<open>\<not> isalpha ''John Smith''\<close> by auto
    with a not_alpha_char show "name s \<noteq> ''John Smith'' \<and> name s \<noteq> [] \<and>
      (\<forall>c \<in> set (name s). is_alpha_char c \<and> \<not> is_space_char c \<and> \<not> is_digit_char c)"
      by (auto simp: isalpha_iff)
  qed
  from general empty smith roster show ?thesis by blast
qed

theorem add_student_letters_only_witness:
  "strip ''John Smith'' = ''John Smith'' \<and> CHR '' '' \<in> set ''John Smith'' \<and>
   is_space_char CHR '' '' \<and>
   add_student [\<lparr>name = ''Ann'', grades = [90]\<rparr>] [''John Smith'', ''3''] =
     (None, [\<lparr>name = ''Ann'', grades = [90]\<rparr>], [''3''], [Err_Name_Letters]) \<and>
   fst (snd (lecture_3_main [''1'', ''John Smith'', ''1'', ''R2D2'', ''1'', [], ''1'', ''John'']))
     = [\<lparr>name = ''John'', grades = []\<rparr>]"
proof -
  have a: "strip ''John Smith'' = ''John Smith''" by code_simp
  have b: "is_space_char CHR '' ''" by code_simp
  have c: "fst (snd (lecture_3_main
      [''1'', ''John Smith'', ''1'', ''R2D2'', ''1'', [], ''1'', ''John'']))
     = [\<lparr>name = ''John'', grades = []\<rparr>]" by code_simp
  show ?thesis
    using add_student_letters_only [of "''John Smith''" "[\<lparr>name = ''Ann'', grades = [90]\<rparr>]"
        "[''3'']" "[]"] a b c
    by simp
qed

subsection \<open>Reachable rosters\<close>

text \<open>
  Claim C8. The empty roster, with which the program starts, satisfies the invariant
  (names purely alphabetic, names pairwise distinct under case-insensitive comparison,
  every grade in [0,100]); \<open>add_student\<close> and \<open>add_grades\<close> keep it, whatever is
  entered; \<open>show_report\<close> and \<open>find_top_performer\<close> return no roster, they only print.
  So the menu loop keeps it, and the roster that a run of the program has reached, after
  any lines of input, satisfies it.
\<close>

theorem roster_invariant_reachable:
  "roster_invariant [] \<and>
   (roster_invariant students \<longrightarrow>
      roster_invariant (fst (snd (add_student students stdin))) \<and>
      roster_invariant (fst (snd (add_grades students stdin))) \<and>
      roster_invariant (fst (snd (main_loop students stdin out)))) \<and>
   roster_invariant (fst (snd (lecture_3_main stdin)))"
proof -
  have start: "roster_invariant []" by (simp add: roster_invariant_def)
  then have "roster_invariant (fst (snd (lecture_3_main stdin)))"
    unfolding lecture_3_main_def by (rule main_loop_inv)
  with start show ?thesis
    using add_student_inv add_grades_inv main_loop_inv by blast
qed

text \<open>
  A run that adds John, is refused \<open>john\<close> and \<open>R2D2\<close>, enters four grade inputs
  for John of which one is accepted, and adds Ann; and one more \<open>add_grades\<close> on a
  roster that satisfies the invariant.
\<close>

theorem roster_invariant_reachable_witness:
  "fst (snd (lecture_3_main [''1'', ''John'', ''1'', ''john'', ''1'', ''R2D2'', ''2'', ''JOHN'',
      ''105'', ''87.5'', ''-1'', ''abc'', ''done'', ''1'', ''Ann'', ''3'', ''4'', ''5''])) =
     [\<lparr>name = ''John'', grades = [87.5]\<rparr>, \<lparr>name = ''Ann'', grades = []\<rparr>] \<and>
   roster_invariant [\<lparr>name = ''John'', grades = [87.5]\<rparr>, \<lparr>name = ''Ann'', grades = []\<rparr>] \<and>
   fst (snd (add_grades [\<lparr>name = ''John'', grades = [87.5]\<rparr>, \<lparr>name = ''Ann'', grades = []\<rparr>]
      [''ann'', ''100'', ''0'', ''100.5''])) =
     [\<lparr>name = ''John'', grades = [87.5]\<rparr>, \<lparr>name = ''Ann'', grades = [100, 0]\<rparr>] \<and>
   roster_invariant [\<lparr>name = ''John'', grades = [87.5]\<rparr>, \<lparr>name = ''Ann'', grades = [100, 0]\<rparr>]"
proof -
  let ?R = "[\<lparr>name = ''John'', grades = [87.5]\<rparr>, \<lparr>name = ''Ann'', grades = []\<rparr>]"
  have a: "fst (snd (lecture_3_main [''1'', ''John'', ''1'', ''john'', ''1'', ''R2D2'', ''2'',
      ''JOHN'', ''105'', ''87.5'', ''-1'', ''abc'', ''done'', ''1'', ''Ann'', ''3'', ''4'', ''5''])) = ?R"
    by code_simp
  have b: "fst (snd (add_grades ?R [''ann'', ''100'', ''0'', ''100.5''])) =
     [\<lparr>name = ''John'', grades = [87.5]\<rparr>, \<lparr>name = ''Ann'', grades = [100, 0]\<rparr>]"
    by code_simp
  have c: "roster_invariant ?R"
    using roster_invariant_reachable [of "[]" "[''1'', ''John'', ''1'', ''john'', ''1'', ''R2D2'',
      ''2'', ''JOHN'', ''105'', ''87.5'', ''-1'', ''abc'', ''done'', ''1'', ''Ann'', ''3'', ''4'',
      ''5'']" "[]"]
    unfolding a by simp
  have d: "roster_invariant (fst (snd (add_grades ?R [''ann'', ''100'', ''0'', ''100.5''])))"
    using roster_invariant_reachable [of ?R "[''ann'', ''100'', ''0'', ''100.5'']" "[]"] c
    by blast
  from a c d show ?thesis unfolding b by simp
qed

subsection \<open>Rejected operations\<close>

lemma grades_loop_out:
  "grades_loop student n stdin out =
     (case grades_loop student n stdin [] of
        (e, student', n', rest, msgs) \<Rightarrow> (e, student', n', rest, out @ msgs))"
proof (induction stdin arbitrary: student n out)
  case Nil
  then show ?case by simp
next
  case (Cons line stdin)
  have step: "grades_loop st k stdin (out @ [m]) =
     (case grades_loop st k stdin [m] of
        (e, student', n', rest, msgs) \<Rightarrow> (e, student', n', rest, out @ msgs))" for st k m
    using Cons.IH [of st k "out @ [m]"] Cons.IH [of st k "[m]"]
    by (simp split: prod.splits)
  show ?case
    by (simp add: step split: prod.splits option.splits)
qed

lemma accepted_grades_rejected:
  "\<forall>l \<in> set inputs. entered_grade l = None \<Longrightarrow> accepted_grades inputs = []"
  by (induction inputs) (simp_all add: accepted_grades_def)

lemma grades_loop_rejected:
  assumes "\<forall>l \<in> set inputs. \<not> is_done l \<and> entered_grade l = None"
  shows "grades_loop student n (inputs @ tail) out =
     grades_loop student n tail (out @ map grade_response inputs)"
  using grades_loop_append [of inputs student n tail out] accepted_grades_rejected [of inputs] assms
  by simp

lemma add_grades_to_student_rejected:
  assumes "\<forall>l \<in> set inputs. \<not> is_done l \<and> entered_grade l = None"
  shows "fst (snd (add_grades_to_student student (inputs @ tail))) =
     fst (snd (add_grades_to_student student tail))"
proof -
  let ?out = "[Adding_Grades_For (name student), Enter_Grades]"
  obtain e student' n' rest msgs where r: "grades_loop student 0 tail [] = (e, student', n', rest, msgs)"
    by (cases "grades_loop student 0 tail []") auto
  have a: "grades_loop student 0 (inputs @ tail) ?out =
      (e, student', n', rest, ?out @ map grade_response inputs @ msgs)"
    using grades_loop_rejected [OF assms, of student 0 tail ?out]
      grades_loop_out [of student 0 tail "?out @ map grade_response inputs"] r
    by simp
  have b: "grades_loop student 0 tail ?out = (e, student', n', rest, ?out @ msgs)"
    using grades_loop_out [of student 0 tail ?out] r by simp
  show ?thesis
    unfolding add_grades_to_student_def a b by (cases e) simp_all
qed

text \<open>
  Claim C10. A rejected operation leaves the roster as it was: \<open>add_student\<close> when the
  name fails the validation or is a duplicate; \<open>add_grades\<close> on the empty roster, and
  with a name that matches no student; and a grade input that fails parsing or the range
  check, after which the loop goes on with the same student and the same count. Grade
  inputs that are all rejected can be left out of the input without any change to the
  roster that \<open>add_grades\<close> produces.
\<close>

theorem rejected_operation_keeps_roster:
  "((\<not> validate_student_name (get_student_name_input line) \<or>
     is_duplicate_student students (get_student_name_input line)) \<longrightarrow>
      fst (snd (add_student students (line # rest))) = students) \<and>
   add_grades [] stdin = (None, [], stdin, [Err_No_Students_Add_First]) \<and>
   (students \<noteq> [] \<and> (\<forall>s \<in> set students. lower (name s) \<noteq> lower (strip line)) \<longrightarrow>
      add_grades students (line # rest) =
        (None, students, rest, [Err_Student_Not_Found (strip line)])) \<and>
   (\<not> is_done input \<and>
    (py_float (lower (strip input)) = None \<or>
     (\<exists>g. py_float (lower (strip input)) = Some g \<and> \<not> validate_grade g)) \<longrightarrow>
      (\<exists>msg. (msg = Err_Invalid_Input \<or> msg = Err_Grade_Range) \<and>
         grades_loop student n (input # rest) out =
           grades_loop student n rest (out @ [msg]))) \<and>
   ((\<forall>l \<in> set inputs. \<not> is_done l \<and> entered_grade l = None) \<longrightarrow>
      fst (snd (add_grades students (line # inputs @ rest))) =
        fst (snd (add_grades students (line # rest))))"
proof -
  have a: "(\<not> validate_student_name (get_student_name_input line) \<or>
     is_duplicate_student students (get_student_name_input line)) \<longrightarrow>
      fst (snd (add_student students (line # rest))) = students"
    by (simp add: Let_def)
  have b: "add_grades [] stdin = (None, [], stdin, [Err_No_Students_Add_First])"
    by (simp add: add_grades_def)
  have c: "students \<noteq> [] \<and> (\<forall>s \<in> set students. lower (name s) \<noteq> lower (strip line)) \<longrightarrow>
      add_grades students (line # rest) =
        (None, students, rest, [Err_Student_Not_Found (strip line)])"
    using find_student_by_name_None [of students "strip line"]
    by (auto simp: add_grades_def get_student_name_input_def Let_def)
  have d: "\<not> is_done input \<and>
    (py_float (lower (strip input)) = None \<or>
     (\<exists>g. py_float (lower (strip input)) = Some g \<and> \<not> validate_grade g)) \<longrightarrow>
      (\<exists>msg. (msg = Err_Invalid_Input \<or> msg = Err_Grade_Range) \<and>
         grades_loop student n (input # rest) out =
           grades_loop student n rest (out @ [msg]))"
  proof
    assume h: "\<not> is_done input \<and>
      (py_float (lower (strip input)) = None \<or>
       (\<exists>g. py_float (lower (strip input)) = Some g \<and> \<not> validate_grade g))"
    then have none: "entered_grade input = None"
      by (simp add: entered_grade_None_iff)
    then have "grades_loop student n (input # rest) out =
        grades_loop student n rest (out @ [grade_response input])"
      using grades_loop_step [of input student n rest out] h by simp
    moreover have "grade_response input = Err_Invalid_Input \<or> grade_response input = Err_Grade_Range"
      using none by (simp add: grade_response_def)
    ultimately show "\<exists>msg. (msg = Err_Invalid_Input \<or> msg = Err_Grade_Range) \<and>
         grades_loop student n (input # rest) out = grades_loop student n rest (out @ [msg])"
      by blast
  qed
  have e: "(\<forall>l \<in> set inputs. \<not> is_done l \<and> entered_grade l = None) \<longrightarrow>
      fst (snd (add_grades students (line # inputs @ rest))) =
        fst (snd (add_grades students (line # rest)))"
  proof
    assume h: "\<forall>l \<in> set inputs. \<not> is_done l \<and> entered_grade l = None"
    show "fst (snd (add_grades students (line # inputs @ rest))) =
        fst (snd (add_grades students (line # rest)))"
    proof (cases "find_student_by_name students (get_student_name_input line)")
      case None
      then show ?thesis by (simp add: add_grades_def)
    next
      case (Some i)
      obtain e1 s1 r1 o1
        where r1: "add_grades_to_student (students ! i) (inputs @ rest) = (e1, s1, r1, o1)"
        by (cases "add_grades_to_student (students ! i) (inputs @ rest)") auto
      obtain e2 s2 r2 o2
        where r2: "add_grades_to_student (students ! i) rest = (e2, s2, r2, o2)"
        by (cases "add_grades_to_student (students ! i) rest") auto
      have "s1 = s2"
        using add_grades_to_student_rejected [OF h, of "students ! i" rest] r1 r2 by simp
      with Some r1 r2 show ?thesis by (simp add: add_grades_def)
    qed
  qed
  from a b c d e show ?thesis by blast
qed

theorem rejected_operation_keeps_roster_witness:
  "is_duplicate_student [\<lparr>name = ''John'', grades = [87.5]\<rparr>] (get_student_name_input ''john'') \<and>
   fst (snd (add_student [\<lparr>name = ''John'', grades = [87.5]\<rparr>] [''john''])) =
     [\<lparr>name = ''John'', grades = [87.5]\<rparr>] \<and>
   add_grades [\<lparr>name = ''John'', grades = [87.5]\<rparr>] [''Bob'', ''50''] =
     (None, [\<lparr>name = ''John'', grades = [87.5]\<rparr>], [''50''], [Err_Student_Not_Found ''Bob'']) \<and>
   fst (snd (grades_loop \<lparr>name = ''John'', grades = [87.5]\<rparr> 0 [''105'', ''done''] [])) =
     \<lparr>name = ''John'', grades = [87.5]\<rparr> \<and>
   fst (snd (add_grades [\<lparr>name = ''John'', grades = [87.5]\<rparr>]
      [''John'', ''105'', ''abc'', ''done''])) = [\<lparr>name = ''John'', grades = [87.5]\<rparr>]"
proof -
  let ?J = "\<lparr>name = ''John'', grades = [87.5]\<rparr>"
  have a: "is_duplicate_student [?J] (get_student_name_input ''john'')" by code_simp
  have b: "lower ''John'' \<noteq> lower (strip ''Bob'')" by code_simp
  have b': "strip ''Bob'' = ''Bob''" by code_simp
  have c: "\<not> is_done ''105''" "\<not> is_done ''abc''" by code_simp+
  have d: "entered_grade ''105'' = None" "entered_grade ''abc'' = None" by code_simp+
  have e: "py_float (lower (strip ''105'')) = Some (Finite 105)" by code_simp
  have f: "\<not> validate_grade (Finite 105)" by (simp add: validate_grade_def)
  have g: "grades_loop ?J 0 [''done''] [Err_Invalid_Input] = (None, ?J, 0, [], [Err_Invalid_Input])"
    "grades_loop ?J 0 [''done''] [Err_Grade_Range] = (None, ?J, 0, [], [Err_Grade_Range])"
    by code_simp+
  have h: "fst (snd (add_grades [?J] [''John'', ''done''])) = [?J]" by code_simp
  have 1: "fst (snd (add_student [?J] [''john''])) = [?J]"
    using rejected_operation_keeps_roster [where line = "''john''" and students = "[?J]"
        and rest = "[]" and inputs = "[]" and input = "''105''"] a
    by simp
  have 2: "add_grades [?J] [''Bob'', ''50''] = (None, [?J], [''50''], [Err_Student_Not_Found ''Bob''])"
    using rejected_operation_keeps_roster [where line = "''Bob''" and students = "[?J]"
        and rest = "[''50'']" and inputs = "[]" and input = "''105''"] b b'
    by simp
  have "\<not> is_done ''105'' \<and>
    (py_float (lower (strip ''105'')) = None \<or>
     (\<exists>g. py_float (lower (strip ''105'')) = Some g \<and> \<not> validate_grade g)) \<longrightarrow>
      (\<exists>msg. (msg = Err_Invalid_Input \<or> msg = Err_Grade_Range) \<and>
         grades_loop ?J 0 (''105'' # [''done'']) [] = grades_loop ?J 0 [''done''] ([] @ [msg]))"
    by (rule rejected_operation_keeps_roster [where line = "''John''" and students = "[?J]"
        and rest = "[''done'']" and inputs = "[''105'', ''abc'']" and input = "''105''"
        and student = ?J and n = 0 and out = "[]",
        THEN conjunct2, THEN conjunct2, THEN conjunct2, THEN conjunct1])
  with c e f obtain msg where "msg = Err_Invalid_Input \<or> msg = Err_Grade_Range"
    and "grades_loop ?J 0 (''105'' # [''done'']) [] = grades_loop ?J 0 [''done''] ([] @ [msg])"
    by blast
  with g e f have 3: "grades_loop ?J 0 [''105'', ''done''] [] = (None, ?J, 0, [], [msg])"
    by auto
  have 4: "fst (snd (add_grades [?J] [''John'', ''105'', ''abc'', ''done''])) = [?J]"
    using rejected_operation_keeps_roster [where line = "''John''" and students = "[?J]"
        and rest = "[''done'']" and inputs = "[''105'', ''abc'']" and input = "''105''"] c d h
    by simp
  from a 1 2 3 4 show ?thesis by simp
qed

end
